theory Spec2Isabelle
  imports Complex_Main
begin

section \<open>JavaScript numbers\<close>

text \<open>
  Every coordinate, scale and delta of the component is a JavaScript number. A finite
  number is modelled by the real it denotes (\<open>Fin\<close>), so arithmetic on finite numbers is
  exact: rounding and overflow of IEEE doubles are left out, which is the reading the
  specification takes when it compares results "to floating-point tolerance". The three
  non-finite values are kept, because a division by zero produces them instead of
  raising. The sign of zero is not distinguished: a zero divisor is taken as \<open>+0\<close>.
\<close>

datatype number = Fin real | PInf | NInf | NaN

fun neg :: "number \<Rightarrow> number" where
  "neg (Fin a) = Fin (- a)"
| "neg PInf = NInf"
| "neg NInf = PInf"
| "neg NaN = NaN"

text \<open>\<open>a + b\<close>\<close>

fun num_add :: "number \<Rightarrow> number \<Rightarrow> number" where
  "num_add (Fin a) (Fin b) = Fin (a + b)"
| "num_add NaN _ = NaN"
| "num_add _ NaN = NaN"
| "num_add PInf NInf = NaN"
| "num_add NInf PInf = NaN"
| "num_add PInf _ = PInf"
| "num_add NInf _ = NInf"
| "num_add (Fin a) PInf = PInf"
| "num_add (Fin a) NInf = NInf"

text \<open>\<open>a - b\<close>\<close>

definition num_sub :: "number \<Rightarrow> number \<Rightarrow> number" where
  "num_sub a b = num_add a (neg b)"

text \<open>\<open>a * b\<close>: an infinity times zero is \<open>NaN\<close>, otherwise the signs multiply.\<close>

fun num_mul :: "number \<Rightarrow> number \<Rightarrow> number" where
  "num_mul (Fin a) (Fin b) = Fin (a * b)"
| "num_mul NaN _ = NaN"
| "num_mul _ NaN = NaN"
| "num_mul (Fin a) PInf = (if a = 0 then NaN else if 0 < a then PInf else NInf)"
| "num_mul (Fin a) NInf = (if a = 0 then NaN else if 0 < a then NInf else PInf)"
| "num_mul PInf (Fin b) = (if b = 0 then NaN else if 0 < b then PInf else NInf)"
| "num_mul NInf (Fin b) = (if b = 0 then NaN else if 0 < b then NInf else PInf)"
| "num_mul PInf PInf = PInf"
| "num_mul PInf NInf = NInf"
| "num_mul NInf PInf = NInf"
| "num_mul NInf NInf = PInf"

text \<open>
  \<open>a / b\<close>: nothing is raised. A finite number over zero is an infinity of its sign
  (\<open>NaN\<close> for \<open>0 / 0\<close>), a finite number over an infinity is zero.
\<close>

fun num_div :: "number \<Rightarrow> number \<Rightarrow> number" where
  "num_div (Fin a) (Fin b) =
     (if b = 0 then (if a = 0 then NaN else if 0 < a then PInf else NInf)
      else Fin (a / b))"
| "num_div NaN _ = NaN"
| "num_div _ NaN = NaN"
| "num_div (Fin a) PInf = Fin 0"
| "num_div (Fin a) NInf = Fin 0"
| "num_div PInf (Fin b) = (if 0 \<le> b then PInf else NInf)"
| "num_div NInf (Fin b) = (if 0 \<le> b then NInf else PInf)"
| "num_div PInf PInf = NaN"
| "num_div PInf NInf = NaN"
| "num_div NInf PInf = NaN"
| "num_div NInf NInf = NaN"

text \<open>\<open>Math.max(a, b)\<close>: \<open>NaN\<close> as soon as one argument is \<open>NaN\<close>.\<close>

fun num_max :: "number \<Rightarrow> number \<Rightarrow> number" where
  "num_max (Fin a) (Fin b) = Fin (max a b)"
| "num_max NaN _ = NaN"
| "num_max _ NaN = NaN"
| "num_max PInf _ = PInf"
| "num_max _ PInf = PInf"
| "num_max NInf b = b"
| "num_max (Fin a) NInf = Fin a"

text \<open>\<open>a < b\<close> and \<open>a > b\<close>: every comparison with \<open>NaN\<close> is false.\<close>

fun num_lt :: "number \<Rightarrow> number \<Rightarrow> bool" where
  "num_lt (Fin a) (Fin b) = (a < b)"
| "num_lt NaN _ = False"
| "num_lt _ NaN = False"
| "num_lt _ NInf = False"
| "num_lt PInf _ = False"
| "num_lt NInf _ = True"
| "num_lt (Fin a) PInf = True"

definition num_gt :: "number \<Rightarrow> number \<Rightarrow> bool" where
  "num_gt a b = num_lt b a"

fun is_fin :: "number \<Rightarrow> bool" where
  "is_fin (Fin a) = True"
| "is_fin _ = False"


section \<open>The vector type\<close>

text \<open>
  Modelled from the spec: the class \<open>vec2\<close> is imported from the package \<open>vec2\<close>, which
  is not part of the sources. The specification describes it as a mutable pair
  \<open>{x, y}\<close> that "supports set, translate (add deltas), add, subtract,
  scale-by-scalar", every method changing the receiver in place and returning it.
  A method is modelled by the function from the receiver's old value to its new one.
\<close>

record vec2 =
  x :: number
  y :: number

definition vec2_set :: "vec2 \<Rightarrow> number \<Rightarrow> number \<Rightarrow> vec2" where
  "vec2_set v a b = v\<lparr>x := a, y := b\<rparr>"

definition vec2_translate :: "vec2 \<Rightarrow> number \<Rightarrow> number \<Rightarrow> vec2" where
  "vec2_translate v dx dy = v\<lparr>x := num_add (x v) dx, y := num_add (y v) dy\<rparr>"

definition vec2_add :: "vec2 \<Rightarrow> vec2 \<Rightarrow> vec2" where
  "vec2_add v w = v\<lparr>x := num_add (x v) (x w), y := num_add (y v) (y w)\<rparr>"

definition vec2_sub :: "vec2 \<Rightarrow> vec2 \<Rightarrow> vec2" where
  "vec2_sub v w = v\<lparr>x := num_sub (x v) (x w), y := num_sub (y v) (y w)\<rparr>"

definition vec2_scale :: "vec2 \<Rightarrow> number \<Rightarrow> vec2" where
  "vec2_scale v k = v\<lparr>x := num_mul (x v) k, y := num_mul (y v) k\<rparr>"

text \<open>
  Modelled from the spec: \<open>add\<close> when its argument may be \<open>undefined\<close> (\<open>None\<close>).
  Adding a vector reads its \<open>x\<close> and \<open>y\<close>; reading a property of \<open>undefined\<close> raises a
  \<open>TypeError\<close> in JavaScript.
\<close>

datatype error = TypeError

definition vec2_add_value :: "vec2 \<Rightarrow> vec2 option \<Rightarrow> error + vec2" where
  "vec2_add_value v w = (case w of None \<Rightarrow> Inl TypeError | Some u \<Rightarrow> Inr (vec2_add v u))"


section \<open>The component's state\<close>

text \<open>The object \<open>__props\<close> (\<open>size\<close> is named \<open>size_vec\<close> here).\<close>

record canvas_props =
  size_vec :: vec2
  screen_position :: vec2
  scale :: number
  position :: vec2

text \<open>
  The instance. Beside the fields the constructor creates, \<open>size_prop\<close> is the property
  \<open>size\<close> that \<open>connectedCallback\<close> assigns on the element itself, \<open>style\<close> is the list
  of transform declarations \<open>(translate x, translate y, scale)\<close> that \<open>update\<close> has
  appended to \<open>canvas.style.cssText\<close>, oldest first, and \<open>frames\<close> counts the callbacks
  handed to \<open>requestAnimationFrame\<close>.
\<close>

record InfiniteCanvas =
  props :: canvas_props
  point :: vec2
  cursor :: vec2
  zoomFactor :: number
  size_prop :: "(number \<times> number) option"
  style :: "(number \<times> number \<times> number) list"
  frames :: nat

text \<open>What \<open>getBoundingClientRect()\<close> returns.\<close>

record DOMRect =
  b_left :: number
  b_top :: number
  b_width :: number
  b_height :: number

text \<open>The target of an event: the component itself or one of its descendants.\<close>

datatype node = This | Child nat

record mouse_event =
  target :: node
  clientX :: number
  clientY :: number

record wheel_event = mouse_event +
  deltaY :: number

definition constructor :: InfiniteCanvas where
  "constructor =
     \<lparr>props = \<lparr>size_vec = \<lparr>x = Fin 0, y = Fin 0\<rparr>,
               screen_position = \<lparr>x = Fin 0, y = Fin 0\<rparr>,
               scale = Fin 1,
               position = \<lparr>x = Fin 0, y = Fin 0\<rparr>\<rparr>,
      point = \<lparr>x = Fin 0, y = Fin 0\<rparr>,
      cursor = \<lparr>x = Fin 0, y = Fin 0\<rparr>,
      zoomFactor = Fin (11 / 10),
      size_prop = None,
      style = [],
      frames = 0\<rparr>"

definition get_position :: "InfiniteCanvas \<Rightarrow> vec2" where
  "get_position st = position (props st)"

definition get_scale :: "InfiniteCanvas \<Rightarrow> number" where
  "get_scale st = scale (props st)"

definition update :: "InfiniteCanvas \<Rightarrow> InfiniteCanvas" where
  "update st =
     st\<lparr>style := style st @ [(x (get_position st), y (get_position st), get_scale st)]\<rparr>"

definition set_position :: "InfiniteCanvas \<Rightarrow> number \<Rightarrow> number \<Rightarrow> InfiniteCanvas" where
  "set_position st px py =
     update (st\<lparr>props := (props st)\<lparr>position := vec2_set (position (props st)) px py\<rparr>\<rparr>)"

definition set_scale :: "InfiniteCanvas \<Rightarrow> number \<Rightarrow> InfiniteCanvas" where
  "set_scale st v = update (st\<lparr>props := (props st)\<lparr>scale := v\<rparr>\<rparr>)"

text \<open>
  \<open>screenToCanvas(point)\<close>: the new value of \<open>point\<close>, which is also what is returned.
  The point is an object of its own, as at both call sites of the class (the field
  \<open>cursor\<close>) and as the specification's "clone" asks of other callers.
\<close>

definition screenToCanvas :: "InfiniteCanvas \<Rightarrow> vec2 \<Rightarrow> vec2" where
  "screenToCanvas st p =
     vec2_scale
       (vec2_sub (vec2_sub p (screen_position (props st))) (position (props st)))
       (num_div (Fin 1) (get_scale st))"

text \<open>
  \<open>this.screen_position\<close>, as \<open>canvasToScreen\<close> reads it: the class defines no such
  property on the element (the vector lives in \<open>__props\<close>), so the read is \<open>undefined\<close>.
\<close>

definition this_screen_position :: "InfiniteCanvas \<Rightarrow> vec2 option" where
  "this_screen_position st = None"

text \<open>
  \<open>canvasToScreen(point)\<close>: the value returned, or the exception raised (the point has
  been scaled in place by then).
\<close>

definition canvasToScreen :: "InfiniteCanvas \<Rightarrow> vec2 \<Rightarrow> error + vec2" where
  "canvasToScreen st p =
     (case vec2_add_value (vec2_scale p (get_scale st)) (this_screen_position st) of
        Inl e \<Rightarrow> Inl e
      | Inr q \<Rightarrow> Inr (vec2_add q (position (props st))))"

text \<open>
  The inverse mapping as the specification words it,
  \<open>result = p * scale + screenOrigin + panOffset\<close>, for comparison with the code.
\<close>

definition canvasToScreen_spec :: "InfiniteCanvas \<Rightarrow> vec2 \<Rightarrow> vec2" where
  "canvasToScreen_spec st p =
     vec2_add (vec2_add (vec2_scale p (get_scale st)) (screen_position (props st)))
       (position (props st))"

text \<open>
  The two callbacks handed to \<open>customDrag\<close>; \<open>onstart\<close> returns its verdict beside the
  state. \<open>ev.stopPropagation()\<close>, here and in the wheel listener, acts on the event
  only. \<open>bounds\<close> is what \<open>getBoundingClientRect()\<close> answers at that moment.
\<close>

definition onstart ::
  "InfiniteCanvas \<Rightarrow> 'a mouse_event_scheme \<Rightarrow> DOMRect \<Rightarrow> bool \<times> InfiniteCanvas" where
  "onstart st ev bounds =
     (if target ev \<noteq> This then (False, st)
      else (True,
            st\<lparr>props := (props st)\<lparr>screen_position :=
                 vec2_set (screen_position (props st)) (b_left bounds) (b_top bounds)\<rparr>\<rparr>))"

definition onmove ::
  "InfiniteCanvas \<Rightarrow> 'a mouse_event_scheme \<Rightarrow> number \<Rightarrow> number \<Rightarrow> InfiniteCanvas" where
  "onmove st ev deltaX deltaY' =
     st\<lparr>props := (props st)\<lparr>position := vec2_translate (position (props st)) deltaX deltaY'\<rparr>,
        frames := frames st + 1\<rparr>"

text \<open>The \<open>pointermove\<close> listener.\<close>

definition pointermove :: "InfiniteCanvas \<Rightarrow> 'a mouse_event_scheme \<Rightarrow> InfiniteCanvas" where
  "pointermove st ev =
     st\<lparr>cursor := screenToCanvas st (vec2_set (cursor st) (clientX ev) (clientY ev))\<rparr>"

text \<open>
  The \<open>wheel\<close> listener. \<open>c\<close> is the cursor after the in-place conversion, \<open>d\<close> the
  cursor after the in-place scaling that follows; the old scale is still current then.
\<close>

definition wheel :: "InfiniteCanvas \<Rightarrow> wheel_event \<Rightarrow> InfiniteCanvas" where
  "wheel st ev =
     (let newScale = num_max (Fin (1 / 10))
                       (num_mul (get_scale st)
                          (if num_gt (deltaY ev) (Fin 0) then num_div (Fin 1) (zoomFactor st)
                           else zoomFactor st));
          c = screenToCanvas st (vec2_set (cursor st) (clientX ev) (clientY ev));
          d = vec2_scale c (num_sub (get_scale st) newScale);
          st1 = st\<lparr>cursor := d,
                   props := (props st)\<lparr>position := vec2_add (position (props st)) d\<rparr>\<rparr>
      in set_scale st1 newScale)"

definition connectedCallback :: "InfiniteCanvas \<Rightarrow> DOMRect \<Rightarrow> InfiniteCanvas" where
  "connectedCallback st bounds =
     st\<lparr>size_prop := Some (b_width bounds, b_height bounds),
        props := (props st)\<lparr>screen_position :=
          vec2_set (screen_position (props st)) (b_left bounds) (b_top bounds)\<rparr>\<rparr>"


section \<open>The drag recogniser\<close>

text \<open>
  Modelled from the spec: \<open>customDrag\<close> is imported from the package \<open>customdrag\<close>,
  which is not part of the sources. The specification assumes that it delivers "a
  start/move/end stream with per-move deltas and a start-veto hook": a gesture
  becomes active when \<open>onstart\<close> allows it, \<open>onmove\<close> runs for the moves of an active
  gesture only, and the end of the gesture makes it inactive. The state of the
  recogniser is whether a gesture is active; a start carries the rectangle the
  browser would report for the element at that moment.
\<close>

datatype drag_input =
  DragStart mouse_event DOMRect
| DragMove mouse_event number number
| DragEnd

fun customDrag :: "bool \<times> InfiniteCanvas \<Rightarrow> drag_input \<Rightarrow> bool \<times> InfiniteCanvas" where
  "customDrag (active, st) (DragStart ev bounds) = onstart st ev bounds"
| "customDrag (active, st) (DragMove ev dx dy) =
     (if active then (True, onmove st ev dx dy) else (False, st))"
| "customDrag (active, st) DragEnd = (False, st)"

text \<open>A vector both of whose coordinates are finite numbers.\<close>

definition fin_vec :: "vec2 \<Rightarrow> bool" where
  "fin_vec v = (is_fin (x v) \<and> is_fin (y v))"


section \<open>Facts about numbers and vectors\<close>

lemma num_sub_Fin [simp]: "num_sub (Fin a) (Fin b) = Fin (a - b)"
  by (simp add: num_sub_def)

lemma num_sub_zero [simp]: "num_sub z (Fin 0) = z"
  by (cases z) (simp_all add: num_sub_def)

lemma num_add_zero [simp]: "num_add z (Fin 0) = z"
  by (cases z) simp_all

lemma num_mul_one [simp]: "num_mul z (Fin 1) = z"
  by (cases z) simp_all


lemma num_max_not_lt: "\<not> num_lt (num_max (Fin a) z) (Fin a)"
  by (cases z) auto


lemma is_fin_iff: "is_fin z \<longleftrightarrow> (\<exists>a. z = Fin a)"
  by (cases z) simp_all

lemma vec2_set_eq: "vec2_set v a b = \<lparr>x = a, y = b\<rparr>"
  by (cases v) (simp add: vec2_set_def)

lemma fin_vecE:
  assumes "fin_vec v"
  obtains a b where "v = \<lparr>x = Fin a, y = Fin b\<rparr>"
proof -
  from assms obtain a b where "x v = Fin a" "y v = Fin b"
    by (auto simp: fin_vec_def is_fin_iff)
  then have "v = \<lparr>x = Fin a, y = Fin b\<rparr>" by (cases v) simp
  then show thesis by (rule that)
qed


section \<open>The wheel listener, field by field\<close>

lemma get_scale_wheel:
  "get_scale (wheel st ev) =
     num_max (Fin (1 / 10))
       (num_mul (get_scale st)
          (if num_gt (deltaY ev) (Fin 0) then num_div (Fin 1) (zoomFactor st)
           else zoomFactor st))"
  by (simp add: wheel_def Let_def set_scale_def update_def get_scale_def)

lemma zoomFactor_wheel: "zoomFactor (wheel st ev) = zoomFactor st"
  by (simp add: wheel_def Let_def set_scale_def update_def)



section \<open>Construction and the cursor\<close>

text \<open>
  Claim C9. A freshly constructed viewport has scale 1, position \<open>(0,0)\<close> and screen
  origin \<open>(0,0)\<close>, and in that state \<open>screenToCanvas\<close> maps every point \<open>p\<close> to
  \<open>p - screenOrigin\<close>, which is \<open>p\<close> itself.
\<close>

theorem identity_at_construction:
  "get_scale constructor = Fin 1 \<and>
   get_position constructor = \<lparr>x = Fin 0, y = Fin 0\<rparr> \<and>
   screen_position (props constructor) = \<lparr>x = Fin 0, y = Fin 0\<rparr> \<and>
   screenToCanvas constructor p = vec2_sub p (screen_position (props constructor)) \<and>
   screenToCanvas constructor p = p"
  by (simp add: constructor_def get_scale_def get_position_def screenToCanvas_def
      vec2_sub_def vec2_scale_def)

theorem identity_at_construction_witness:
  "screenToCanvas constructor \<lparr>x = Fin 150, y = Fin 120\<rparr> = \<lparr>x = Fin 150, y = Fin 120\<rparr>"
  using identity_at_construction [of "\<lparr>x = Fin 150, y = Fin 120\<rparr>"] by blast

text \<open>
  Claim C10. The field \<open>cursor\<close> does not keep the pointer's screen position. After the
  \<open>pointermove\<close> listener has run for a pointer at \<open>(clientX, clientY)\<close> it holds
  \<open>screenToCanvas\<close> of that position; after the \<open>wheel\<close> listener it holds the
  pre-zoom \<open>screenToCanvas\<close> of the anchor, scaled by the old scale minus the new one.
\<close>

theorem cursor_holds_canvas_point:
  "cursor (pointermove st ev) = screenToCanvas st \<lparr>x = clientX ev, y = clientY ev\<rparr> \<and>
   cursor (wheel st wev) =
     vec2_scale (screenToCanvas st \<lparr>x = clientX wev, y = clientY wev\<rparr>)
       (num_sub (get_scale st) (get_scale (wheel st wev)))"
  by (simp add: pointermove_def get_scale_wheel vec2_set_eq)
     (simp add: wheel_def Let_def set_scale_def update_def get_scale_def vec2_set_eq)

theorem cursor_holds_canvas_point_witness:
  "cursor (pointermove (set_scale constructor (Fin 2))
             \<lparr>target = This, clientX = Fin 30, clientY = Fin 40\<rparr>)
   = \<lparr>x = Fin 15, y = Fin 20\<rparr>"
  using cursor_holds_canvas_point
          [of "set_scale constructor (Fin 2)"
              "\<lparr>target = This, clientX = Fin 30, clientY = Fin 40\<rparr>"]
  by (simp add: set_scale_def update_def get_scale_def constructor_def screenToCanvas_def
      vec2_sub_def vec2_scale_def)


section \<open>Panning\<close>




section \<open>Zooming\<close>



subsection \<open>The scale floor\<close>

lemma get_scale_wheel_out:
  assumes "get_scale st = Fin s" "zoomFactor st = Fin (11 / 10)" "num_gt (deltaY ev) (Fin 0)"
  shows "get_scale (wheel st ev) = Fin (max (1 / 10) (s * (10 / 11)))"
  using assms by (simp add: get_scale_wheel)

lemma clamp_step:
  fixes s r :: real
  assumes "0 \<le> r" "r \<le> 1"
  shows "max (1 / 10) (max (1 / 10) s * r) = max (1 / 10) (s * r)"
proof -
  have "(1 / 10) * r \<le> 1 / 10" using assms by (simp add: mult_left_le)
  moreover have "max (1 / 10) s * r = max ((1 / 10) * r) (s * r)"
    using assms by (simp add: max_mult_distrib_right)
  ultimately show ?thesis by (simp add: max_def)
qed

text \<open>The scale after a run of zoom-out steps from a scale that is not below the floor.\<close>

lemma zoom_out_steps:
  assumes "zoomFactor st = Fin (11 / 10)" "get_scale st = Fin s" "1 / 10 \<le> s"
    and "\<forall>e \<in> set evs. num_gt (deltaY e) (Fin 0)"
  shows "get_scale (foldl wheel st evs) = Fin (max (1 / 10) (s * (10 / 11) ^ length evs))"
  using assms
proof (induction evs arbitrary: st s)
  case Nil
  then show ?case by (simp add: max_def)
next
  case (Cons e evs)
  let ?s' = "max (1 / 10) (s * (10 / 11))"
  have 1: "get_scale (wheel st e) = Fin ?s'"
    using Cons.prems by (simp add: get_scale_wheel_out)
  have 2: "zoomFactor (wheel st e) = Fin (11 / 10)"
    using Cons.prems by (simp add: zoomFactor_wheel)
  have 3: "1 / 10 \<le> ?s'" by simp
  have "get_scale (foldl wheel (wheel st e) evs)
        = Fin (max (1 / 10) (?s' * (10 / 11) ^ length evs))"
    using Cons.IH [OF 2 1 3] Cons.prems by simp
  moreover have "max (1 / 10) (?s' * (10 / 11) ^ length evs)
        = max (1 / 10) (s * (10 / 11) * (10 / 11) ^ length evs)"
  proof -
    have "(0::real) \<le> (10 / 11) ^ length evs" by simp
    moreover have "((10::real) / 11) ^ length evs \<le> 1" by (rule power_le_one) simp_all
    ultimately show ?thesis by (rule clamp_step)
  qed
  ultimately show ?case by (simp add: mult.assoc)
qed

lemma pow200: "((10::real) / 11) ^ 200 \<le> 1 / 10"
proof -
  have a: "((10::real) / 11) ^ 25 \<le> 1 / 10" by (simp add: power_divide)
  have "((10::real) / 11) ^ 200 = (((10::real) / 11) ^ 25) ^ 8"
    by (simp add: power_mult [symmetric])
  also have "\<dots> \<le> (1 / 10) ^ 8" using a by (intro power_mono) simp_all
  also have "\<dots> \<le> (1::real) / 10" by (simp add: power_divide)
  finally show ?thesis .
qed

lemma floor_after_steps:
  "\<not> num_lt (get_scale (foldl wheel (wheel st ev) evs)) (Fin (1 / 10))"
proof (induction evs arbitrary: st ev)
  case Nil
  show ?case by (simp add: get_scale_wheel num_max_not_lt)
next
  case (Cons e evs)
  show ?case using Cons.IH [of "wheel st ev" e] by simp
qed

text \<open>
  Claim C3. Scale floor: from every starting state, after one wheel event or more the
  scale is not below \<open>0.1\<close>, because each step sets it to
  \<open>max(0.1, scale * direction)\<close>; and from scale 1 with zoom factor \<open>1.1\<close>, 200
  zoom-out steps (\<open>deltaY > 0\<close>) leave the scale at exactly \<open>0.1\<close>.
\<close>

theorem scale_floor:
  "get_scale (wheel st ev) =
     num_max (Fin (1 / 10))
       (num_mul (get_scale st)
          (if num_gt (deltaY ev) (Fin 0) then num_div (Fin 1) (zoomFactor st)
           else zoomFactor st)) \<and>
   \<not> num_lt (get_scale (foldl wheel (wheel st ev) evs)) (Fin (1 / 10)) \<and>
   (get_scale st = Fin 1 \<and> zoomFactor st = Fin (11 / 10) \<and> length outs = 200 \<and>
    (\<forall>e \<in> set outs. num_gt (deltaY e) (Fin 0))
    \<longrightarrow> get_scale (foldl wheel st outs) = Fin (1 / 10))"
proof (intro conjI impI)
  show "get_scale (wheel st ev) =
     num_max (Fin (1 / 10))
       (num_mul (get_scale st)
          (if num_gt (deltaY ev) (Fin 0) then num_div (Fin 1) (zoomFactor st)
           else zoomFactor st))"
    by (rule get_scale_wheel)
next
  show "\<not> num_lt (get_scale (foldl wheel (wheel st ev) evs)) (Fin (1 / 10))"
    by (rule floor_after_steps)
next
  assume h: "get_scale st = Fin 1 \<and> zoomFactor st = Fin (11 / 10) \<and> length outs = 200 \<and>
    (\<forall>e \<in> set outs. num_gt (deltaY e) (Fin 0))"
  then have "get_scale (foldl wheel st outs) = Fin (max (1 / 10) (1 * (10 / 11) ^ 200))"
    using zoom_out_steps [of st 1 outs] by simp
  then show "get_scale (foldl wheel st outs) = Fin (1 / 10)"
    using pow200 by (simp add: max_def)
qed

theorem scale_floor_witness:
  "get_scale (foldl wheel constructor
      (replicate 200 \<lparr>target = This, clientX = Fin 150, clientY = Fin 120, deltaY = Fin 100\<rparr>))
   = Fin (1 / 10)"
proof -
  let ?e = "\<lparr>target = This, clientX = Fin 150, clientY = Fin 120, deltaY = Fin 100\<rparr>"
  have "get_scale constructor = Fin 1 \<and> zoomFactor constructor = Fin (11 / 10) \<and>
    length (replicate 200 ?e) = 200 \<and>
    (\<forall>e \<in> set (replicate 200 ?e). num_gt (deltaY e) (Fin 0))"
    by (simp add: constructor_def get_scale_def num_gt_def)
  then show ?thesis
    using scale_floor [of constructor ?e "[]" "replicate 200 ?e"] by blast
qed

subsection \<open>Direction of a step\<close>



subsection \<open>A wheel event with zero delta\<close>




subsection \<open>The scale setter\<close>





section \<open>The drag veto\<close>

lemma moves_without_gesture:
  "foldl customDrag (False, st) (map (\<lambda>(e, dx, dy). DragMove e dx dy) ms) = (False, st)"
  by (induction ms) auto

text \<open>
  Claim C7. When the target of a drag-start is not the viewport itself, \<open>onstart\<close>
  answers false and returns the state as it was (scale, pan offset and screen origin
  included), the gesture is not active, and the moves that follow are not applied.
\<close>

theorem drag_veto:
  assumes "target ev \<noteq> This"
  shows "onstart st ev bounds = (False, st) \<and>
    foldl customDrag (active, st)
      (DragStart ev bounds # map (\<lambda>(e, dx, dy). DragMove e dx dy) ms) = (False, st)"
  using assms by (simp add: onstart_def moves_without_gesture)

theorem drag_veto_witness:
  "foldl customDrag (False, constructor)
     [DragStart \<lparr>target = Child 0, clientX = Fin 5, clientY = Fin 5\<rparr>
        \<lparr>b_left = Fin 50, b_top = Fin 20, b_width = Fin 800, b_height = Fin 600\<rparr>,
      DragMove \<lparr>target = Child 0, clientX = Fin 8, clientY = Fin 9\<rparr> (Fin 3) (Fin 4)]
   = (False, constructor)"
proof -
  have h: "target \<lparr>target = Child 0, clientX = Fin 5, clientY = Fin 5\<rparr> \<noteq> This" by simp
  show ?thesis
    using drag_veto [OF h, of constructor
        "\<lparr>b_left = Fin 50, b_top = Fin 20, b_width = Fin 800, b_height = Fin 600\<rparr>"
        False "[(\<lparr>target = Child 0, clientX = Fin 8, clientY = Fin 9\<rparr>, Fin 3, Fin 4)]"]
    by simp
qed


section \<open>The round trip\<close>

text \<open>
  With the inverse mapping as the specification words it, the round trip holds in
  every finite state whose scale is not zero.
\<close>

lemma canvasToScreen_spec_roundtrip:
  assumes "get_scale st = Fin s" "s \<noteq> 0"
    and "fin_vec (screen_position (props st))" "fin_vec (get_position st)" "fin_vec p"
  shows "canvasToScreen_spec st (screenToCanvas st p) = p"
proof -
  from assms(3) obtain ox oy where o: "screen_position (props st) = \<lparr>x = Fin ox, y = Fin oy\<rparr>"
    by (rule fin_vecE)
  from assms(4) obtain px py where p: "position (props st) = \<lparr>x = Fin px, y = Fin py\<rparr>"
    unfolding get_position_def by (rule fin_vecE)
  from assms(5) obtain a b where q: "p = \<lparr>x = Fin a, y = Fin b\<rparr>"
    by (rule fin_vecE)
  show ?thesis using assms(1,2)
    by (simp add: canvasToScreen_spec_def screenToCanvas_def get_scale_def o p q
        vec2_sub_def vec2_scale_def vec2_add_def)
qed

text \<open>
  The code's \<open>canvasToScreen\<close> never reads the screen origin kept in \<open>__props\<close>, so
  its result cannot follow it; with \<open>add\<close> as modelled it raises in every state.
\<close>

lemma canvasToScreen_ignores_origin:
  "canvasToScreen (st\<lparr>props := (props st)\<lparr>screen_position := v\<rparr>\<rparr>) p = canvasToScreen st p"
  by (simp add: canvasToScreen_def this_screen_position_def get_scale_def split: sum.split)

lemma canvasToScreen_always_raises: "canvasToScreen st p = Inl TypeError"
  by (simp add: canvasToScreen_def this_screen_position_def vec2_add_value_def)

text \<open>
  Claim C1 asks that \<open>canvasToScreen (screenToCanvas p)\<close> return \<open>p\<close>. For the viewport
  mounted at \<open>(50,20)\<close> and \<open>p = (150,120)\<close>, \<open>screenToCanvas\<close> returns \<open>(100,100)\<close>
  and \<open>canvasToScreen\<close> then raises instead of returning \<open>(150,120)\<close>.
\<close>

theorem roundtrip_raises:
  "screenToCanvas
     (connectedCallback constructor
        \<lparr>b_left = Fin 50, b_top = Fin 20, b_width = Fin 800, b_height = Fin 600\<rparr>)
     \<lparr>x = Fin 150, y = Fin 120\<rparr> = \<lparr>x = Fin 100, y = Fin 100\<rparr> \<and>
   canvasToScreen
     (connectedCallback constructor
        \<lparr>b_left = Fin 50, b_top = Fin 20, b_width = Fin 800, b_height = Fin 600\<rparr>)
     (screenToCanvas
        (connectedCallback constructor
           \<lparr>b_left = Fin 50, b_top = Fin 20, b_width = Fin 800, b_height = Fin 600\<rparr>)
        \<lparr>x = Fin 150, y = Fin 120\<rparr>) = Inl TypeError"
  by (simp add: canvasToScreen_def this_screen_position_def vec2_add_value_def
      screenToCanvas_def connectedCallback_def constructor_def get_scale_def vec2_set_eq
      vec2_sub_def vec2_scale_def)

end
